theory Spec2Isabelle
  imports Main
begin

section \<open>Eco Step: page, session and post-board controller, offline cache worker\<close>

text \<open>
  The page script (functions \<open>showPage\<close>, \<open>showToast\<close>, \<open>updateNavigation\<close>,
  \<open>signOut\<close>, \<open>handleSignUp\<close>, \<open>handleSignIn\<close>, \<open>getPosts\<close>, \<open>savePosts\<close>,
  \<open>renderPosts\<close>, the like button's click listener and the post form's submit
  listener) and the service worker's \<open>activate\<close> listener are embedded as functions
  on an explicit state: the browser's \<open>localStorage\<close>, the document, the children
  of the toast container and the cards of the posts grid.

  The markup the script runs against is not among the sources, so the document is
  an arbitrary list of elements and every lookup by id may fail, as in the script.
\<close>

subsection \<open>The document\<close>

text \<open>
  An element carries what the script reads or writes of it: its id (empty when it
  has none; the script only looks up non-empty ids), its class list, the inline
  \<open>style.display\<close> and, for form controls, the \<open>value\<close> (\<open>None\<close> is JavaScript's
  \<open>undefined\<close>).
\<close>

record element =
  elem_id :: string
  classList :: "string list"
  style_display :: "string option"
  input_value :: "string option"

text \<open>\<open>Array.prototype.findIndex\<close>; \<open>None\<close> stands for the result \<open>-1\<close>.\<close>

fun findIndex :: "('a \<Rightarrow> bool) \<Rightarrow> 'a list \<Rightarrow> nat option" where
  "findIndex P [] = None"
| "findIndex P (x # xs) = (if P x then Some 0 else map_option Suc (findIndex P xs))"

text \<open>\<open>document.getElementById\<close>: the first element in document order, or \<open>null\<close>.\<close>

definition getElementById :: "string \<Rightarrow> element list \<Rightarrow> nat option" where
  "getElementById i es = findIndex (\<lambda>e. elem_id e = i) es"

text \<open>The idiom \<open>const el = document.getElementById(i); if (el) f(el)\<close>.\<close>

definition withElementById :: "string \<Rightarrow> (element \<Rightarrow> element) \<Rightarrow> element list \<Rightarrow> element list" where
  "withElementById i f es =
     (case getElementById i es of None \<Rightarrow> es | Some k \<Rightarrow> es[k := f (es ! k)])"

text \<open>\<open>classList.add\<close>, \<open>classList.remove\<close> and \<open>classList.contains\<close>.\<close>

definition classAdd :: "string \<Rightarrow> element \<Rightarrow> element" where
  "classAdd c e = (if c \<in> set (classList e) then e else e\<lparr>classList := classList e @ [c]\<rparr>)"

definition classRemove :: "string \<Rightarrow> element \<Rightarrow> element" where
  "classRemove c e = e\<lparr>classList := filter (\<lambda>x. x \<noteq> c) (classList e)\<rparr>"

definition hasClass :: "string \<Rightarrow> element \<Rightarrow> bool" where
  "hasClass c e = (c \<in> set (classList e))"

text \<open>
  \<open>document.querySelectorAll('.page').forEach(p => p.classList.remove('active'))\<close>
\<close>

definition deactivatePages :: "element list \<Rightarrow> element list" where
  "deactivatePages es = map (\<lambda>p. if hasClass ''page'' p then classRemove ''active'' p else p) es"

definition setDisplay :: "string \<Rightarrow> element \<Rightarrow> element" where
  "setDisplay v e = e\<lparr>style_display := Some v\<rparr>"

subsection \<open>The local store\<close>

text \<open>
  \<open>localStorage\<close> holds strings under the seven keys the script uses; an absent
  key (\<open>getItem\<close> returns \<open>null\<close>) is \<open>None\<close>, \<open>removeItem\<close> sets it to \<open>None\<close>.

  The two keys read through \<open>JSON.parse\<close> hold a text that is modelled by what
  \<open>JSON.parse\<close> makes of it: the empty string, a text that is not JSON
  (\<open>JSON.parse\<close> throws a SyntaxError), or the JSON text of a value. The texts
  under \<open>posts\<close> and \<open>likedPosts\<close> are taken to be of these three kinds for an
  array of posts and an array of ids; \<open>JSON.stringify v\<close> is \<open>Json v\<close> and
  parsing it gives \<open>v\<close> back.
\<close>

datatype js_error = SyntaxError | TypeError

datatype 'a json_text = Empty_text | Malformed | Json 'a

fun JSON_parse :: "'a json_text \<Rightarrow> js_error + 'a" where
  "JSON_parse (Json v) = Inr v"
| "JSON_parse Malformed = Inl SyntaxError"
| "JSON_parse Empty_text = Inl SyntaxError"

definition JSON_stringify :: "'a \<Rightarrow> 'a json_text" where
  "JSON_stringify v = Json v"

text \<open>
  A post as the submit listener builds it. \<open>likes\<close> is optional: the script reads
  it as \<open>p.likes || 0\<close> everywhere, and a post stored without the field (or with
  \<open>null\<close>) counts as 0.
\<close>

record post =
  post_id :: int
  title :: string
  description :: string
  image_url :: "string option"
  likes :: "int option"
  createdAt :: int
  author :: string

record storage =
  isLoggedIn :: "string option"
  userName :: "string option"
  theme :: "string option"
  siteLang :: "string option"
  onboardCompleted :: "string option"
  posts :: "post list json_text option"
  likedPosts :: "int list json_text option"

subsection \<open>The page\<close>

text \<open>
  \<open>toasts\<close> are the children of the element with id \<open>toasts\<close> (message and type),
  \<open>posts_grid\<close> the cards of the element with id \<open>posts-grid\<close>, each card given by
  the post it shows. Neither kind of created element has an id or the class
  \<open>page\<close>, so they are kept apart from \<open>document\<close>.
\<close>

record page =
  localStorage :: storage
  document :: "element list"
  toasts :: "(string \<times> string) list"
  posts_grid :: "post list"

text \<open>
  \<open>showToast(message, type)\<close>: nothing without the container; the timers that
  later fade the toast out are not part of the state.
\<close>

definition showToast :: "string \<Rightarrow> string \<Rightarrow> page \<Rightarrow> page" where
  "showToast message type s =
     (case getElementById ''toasts'' (document s) of
        None \<Rightarrow> s
      | Some container \<Rightarrow> s\<lparr>toasts := toasts s @ [(message, type)]\<rparr>)"

subsection \<open>Navigation\<close>

definition isLogged :: "page \<Rightarrow> bool" where
  "isLogged s = (isLoggedIn (localStorage s) = Some ''true'')"

text \<open>The two assignments to \<open>style.display\<close> at the head of \<open>updateNavigation\<close>.\<close>

definition setNavLinks :: "page \<Rightarrow> page" where
  "setNavLinks s =
     (let v = (if isLogged s then ''inline'' else ''none'')
      in s\<lparr>document :=
            withElementById ''signout-link'' (setDisplay v)
              (withElementById ''dashboard-link'' (setDisplay v) (document s))\<rparr>)"

text \<open>
  Whether the guard at the end of \<open>updateNavigation\<close> sends the request on.
\<close>

definition guarded :: "bool \<Rightarrow> string \<Rightarrow> bool" where
  "guarded logged currentPage =
     ((logged \<and> (currentPage = ''signin'' \<or> currentPage = ''signup'')) \<or>
      (\<not> logged \<and> currentPage \<in> set [''dashboard'', ''challenges'', ''rewards'', ''profile'']))"

text \<open>
  \<open>showPage\<close> and \<open>updateNavigation\<close> call each other; a request that was sent on
  is not sent on again, which is the termination argument.
\<close>

function showPage :: "string \<Rightarrow> page \<Rightarrow> page"
  and updateNavigation :: "string \<Rightarrow> page \<Rightarrow> page" where
  "showPage pageName s =
     updateNavigation pageName
       (s\<lparr>document :=
            withElementById (pageName @ ''-page'') (classAdd ''active'')
              (deactivatePages (document s))\<rparr>)"
| "updateNavigation currentPage s =
     (if isLogged s \<and> (currentPage = ''signin'' \<or> currentPage = ''signup'')
      then showPage ''dashboard'' (setNavLinks s)
      else if \<not> isLogged s \<and>
              currentPage \<in> set [''dashboard'', ''challenges'', ''rewards'', ''profile'']
      then showPage ''signin'' (setNavLinks s)
      else setNavLinks s)"
  by pat_completeness auto
termination
  by (relation "measure (\<lambda>x. case x of
          Inl (n, s) \<Rightarrow> (if guarded (isLogged s) n then 3 else 1)
        | Inr (n, s) \<Rightarrow> (if guarded (isLogged s) n then 2 else 0))")
     (auto simp: isLogged_def setNavLinks_def guarded_def Let_def)

subsection \<open>Session transitions\<close>

text \<open>
  \<open>x || d\<close> for a string or \<open>null\<close>/\<open>undefined\<close>: the empty string is falsy too.
\<close>

definition orElse :: "string option \<Rightarrow> string \<Rightarrow> string" where
  "orElse x d = (case x of None \<Rightarrow> d | Some v \<Rightarrow> if v = [] then d else v)"

text \<open>\<open>document.getElementById(i)?.value\<close>\<close>

definition optValue :: "string \<Rightarrow> element list \<Rightarrow> string option" where
  "optValue i es = (case getElementById i es of None \<Rightarrow> None | Some k \<Rightarrow> input_value (es ! k))"

definition signOut :: "page \<Rightarrow> page" where
  "signOut s =
     showPage ''signin''
       (showToast ''You have been signed out.'' ''info''
          (s\<lparr>localStorage := (localStorage s)\<lparr>isLoggedIn := None, userName := None\<rparr>\<rparr>))"

text \<open>\<open>e.preventDefault()\<close> acts on the event only and is left out.\<close>

definition handleSignUp :: "page \<Rightarrow> page" where
  "handleSignUp s =
     (let pwd = optValue ''signup-password'' (document s);
          confirm = optValue ''signup-confirm-password'' (document s)
      in if pwd \<noteq> confirm then showToast ''Passwords do not match!'' ''warn'' s
         else showPage ''dashboard''
                (showToast ''Account created successfully! Redirecting to dashboard...'' ''success''
                   (s\<lparr>localStorage := (localStorage s)
                        \<lparr>isLoggedIn := Some ''true'',
                         userName := Some (orElse (optValue ''signup-name'' (document s))
                                             ''EcoWarrior'')\<rparr>\<rparr>)))"

definition handleSignIn :: "page \<Rightarrow> page" where
  "handleSignIn s =
     showPage ''dashboard''
       (showToast ''Signed in successfully! Redirecting to dashboard...'' ''success''
          (s\<lparr>localStorage := (localStorage s)
               \<lparr>isLoggedIn := Some ''true'', userName := Some ''EcoWarrior''\<rparr>\<rparr>))"

subsection \<open>Post board\<close>

text \<open>\<open>localStorage.getItem(key) || '[]'\<close>: an absent key and the empty string give \<open>'[]'\<close>.\<close>

definition orEmptyArray :: "'a list json_text option \<Rightarrow> 'a list json_text" where
  "orEmptyArray x = (case x of None \<Rightarrow> Json [] | Some Empty_text \<Rightarrow> Json [] | Some t \<Rightarrow> t)"

text \<open>\<open>getPosts\<close>: the \<open>try\<close>/\<open>catch\<close> turns a SyntaxError into the empty array.\<close>

definition getPosts :: "storage \<Rightarrow> post list" where
  "getPosts st = (case JSON_parse (orEmptyArray (posts st)) of Inr v \<Rightarrow> v | Inl e \<Rightarrow> [])"

definition savePosts :: "post list \<Rightarrow> storage \<Rightarrow> storage" where
  "savePosts ps st = st\<lparr>posts := Some (JSON_stringify ps)\<rparr>"

text \<open>
  A likes count is a Number, an IEEE double, holding an integer. Every integer
  of magnitude up to \<open>2 ^ 53\<close> is such a Number; a larger one has a 53-bit
  significand and \<open>excess\<close> further binary digits. A sum or difference is the
  exact result rounded to the nearest Number, a tie going to the even
  significand: \<open>toNumber\<close>. (A count is finite, and adding or subtracting 1
  never overflows.)
\<close>

function excess :: "nat \<Rightarrow> nat" where
  "excess a = (if a < 2 ^ 53 then 0 else Suc (excess (a div 2)))"
  by pat_completeness auto
termination
  by (relation "measure (\<lambda>a. a)") auto

definition toNumber :: "int \<Rightarrow> int" where
  "toNumber x =
     (let a = nat \<bar>x\<bar>; e = excess a; q = a div 2 ^ e; r = a mod 2 ^ e
      in if e = 0 then x
         else sgn x *
              int ((if 2 ^ e < 2 * r \<or> (2 * r = 2 ^ e \<and> odd q) then q + 1 else q) * 2 ^ e))"

definition numPlus :: "int \<Rightarrow> int \<Rightarrow> int" where
  "numPlus x y = toNumber (x + y)"

definition numMinus :: "int \<Rightarrow> int \<Rightarrow> int" where
  "numMinus x y = toNumber (x - y)"

text \<open>\<open>p.likes || 0\<close>\<close>

definition likesOr0 :: "post \<Rightarrow> int" where
  "likesOr0 p = (case likes p of None \<Rightarrow> 0 | Some n \<Rightarrow> n)"

text \<open>
  The click listener of a card's like button; \<open>pid\<close> is \<open>post.id\<close> of the post the
  card was built from. \<open>JSON.parse\<close> of the liked ids is outside any \<open>try\<close>, so
  its SyntaxError leaves the listener. The listener writes the two keys of the
  store; the count it then writes into its own button and the button's animation
  are left out. \<open>likedPosts.indexOf\<close> followed by \<open>splice(pos, 1)\<close> removes the
  first occurrence, which is \<open>remove1\<close>.
\<close>

definition likeClick :: "int \<Rightarrow> storage \<Rightarrow> js_error + storage" where
  "likeClick pid st =
     (case JSON_parse (orEmptyArray (likedPosts st)) of
        Inl e \<Rightarrow> Inl e
      | Inr liked \<Rightarrow>
          (let ps = getPosts st in
           case findIndex (\<lambda>p. post_id p = pid) ps of
             None \<Rightarrow> Inr st
           | Some idx \<Rightarrow>
               (let p = ps ! idx;
                    isLiked = (post_id p \<in> set liked);
                    p' = (if isLiked then p\<lparr>likes := Some (max 0 (numMinus (likesOr0 p) 1))\<rparr>
                          else p\<lparr>likes := Some (numPlus (likesOr0 p) 1)\<rparr>);
                    liked' = (if isLiked then remove1 (post_id p) liked
                              else liked @ [post_id p])
                in Inr ((savePosts (ps[idx := p']) st)
                          \<lparr>likedPosts := Some (JSON_stringify liked')\<rparr>))))"

text \<open>
  \<open>renderPosts\<close>: \<open>Array.prototype.sort\<close> with the comparator
  \<open>(a, b) => b.createdAt - a.createdAt\<close> is a stable sort by descending
  \<open>createdAt\<close>, as \<open>sort_key\<close> on the negated key is (the difference of two
  Numbers has the sign of the exact difference). A card is given by its post.
\<close>

definition renderPosts :: "page \<Rightarrow> page" where
  "renderPosts s =
     (let ps = sort_key (\<lambda>p. - createdAt p) (getPosts (localStorage s))
      in case getElementById ''posts-grid'' (document s) of
           None \<Rightarrow> s
         | Some grid \<Rightarrow>
             if ps = []
             then s\<lparr>posts_grid := [],
                    document := withElementById ''no-posts'' (setDisplay ''block'') (document s)\<rparr>
             else s\<lparr>posts_grid := ps,
                    document := withElementById ''no-posts'' (setDisplay ''none'') (document s)\<rparr>)"

text \<open>
  \<open>String.prototype.trim\<close> on strings of characters below 256: the white space
  and line terminators of the language in that range.
\<close>

definition isWhiteSpace :: "char \<Rightarrow> bool" where
  "isWhiteSpace c =
     (c \<in> set [CHR 0x09, CHR 0x0A, CHR 0x0B, CHR 0x0C, CHR 0x0D, CHR 0x20, CHR 0xA0])"

definition trim :: "string \<Rightarrow> string" where
  "trim v = rev (dropWhile isWhiteSpace (rev (dropWhile isWhiteSpace v)))"

text \<open>
  \<open>document.getElementById(i).value.trim()\<close>: a TypeError when the element is
  missing or has no value.
\<close>

definition trimmedValue :: "string \<Rightarrow> element list \<Rightarrow> js_error + string" where
  "trimmedValue i es =
     (case getElementById i es of
        None \<Rightarrow> Inl TypeError
      | Some k \<Rightarrow> (case input_value (es ! k) of None \<Rightarrow> Inl TypeError | Some v \<Rightarrow> Inr (trim v)))"

text \<open>
  The submit listener of the post form. \<open>now1\<close> and \<open>now2\<close> are the two readings
  of \<open>Date.now()\<close>, for \<open>id\<close> and for \<open>createdAt\<close>. \<open>postForm.reset()\<close> restores
  the controls of the form, and the confetti of the first post is an effect of
  an outside library; neither touches the store, the toasts or the grid, and
  both are left out.
\<close>

definition postFormSubmit :: "int \<Rightarrow> int \<Rightarrow> page \<Rightarrow> js_error + page" where
  "postFormSubmit now1 now2 s =
     (case trimmedValue ''post-title'' (document s) of
        Inl e \<Rightarrow> Inl e
      | Inr ttl \<Rightarrow>
     (case trimmedValue ''post-desc'' (document s) of
        Inl e \<Rightarrow> Inl e
      | Inr desc \<Rightarrow>
     (case trimmedValue ''post-image'' (document s) of
        Inl e \<Rightarrow> Inl e
      | Inr img \<Rightarrow>
          if ttl = [] then Inr (showToast ''Please enter a post title'' ''warn'' s)
          else
            (let ps = getPosts (localStorage s);
                 new = \<lparr>post_id = now1, title = ttl, description = desc,
                        image_url = (if img = [] then None else Some img),
                        likes = Some 0, createdAt = now2,
                        author = orElse (userName (localStorage s)) ''EcoWarrior''\<rparr>;
                 s1 = s\<lparr>localStorage := savePosts (ps @ [new]) (localStorage s)\<rparr>
             in Inr (showToast ''Your post has been shared! Thank you for contributing!''
                       ''success'' (renderPosts s1))))))"

subsection \<open>Offline cache worker\<close>

text \<open>
  The worker's \<open>CacheStorage\<close> as the list of its caches by name, in the order
  \<open>caches.keys()\<close> gives them; what a cache holds is left open. The \<open>activate\<close>
  listener waits for every \<open>caches.delete(k)\<close> it starts.
\<close>

definition CACHE_NAME :: string where
  "CACHE_NAME = ''ecostep-v1''"

definition caches_keys :: "(string \<times> 'c) list \<Rightarrow> string list" where
  "caches_keys cs = map fst cs"

definition caches_delete :: "string \<Rightarrow> (string \<times> 'c) list \<Rightarrow> (string \<times> 'c) list" where
  "caches_delete k cs = filter (\<lambda>c. fst c \<noteq> k) cs"

definition activate :: "(string \<times> 'c) list \<Rightarrow> (string \<times> 'c) list" where
  "activate cs = fold caches_delete (filter (\<lambda>k. k \<noteq> CACHE_NAME) (caches_keys cs)) cs"

section \<open>Observations and example states\<close>

subsection \<open>Observations\<close>

text \<open>
  The ids of the page containers (class \<open>page\<close>) that carry the class \<open>active\<close>,
  in document order.
\<close>

definition activeOf :: "element list \<Rightarrow> string list" where
  "activeOf es = map elem_id (filter (\<lambda>e. hasClass ''page'' e \<and> hasClass ''active'' e) es)"

definition activePages :: "page \<Rightarrow> string list" where
  "activePages s = activeOf (document s)"

text \<open>
  Whether \<open>getElementById\<close> finds an element for the id and that element is a
  page container.
\<close>

definition pageContainer :: "string \<Rightarrow> element list \<Rightarrow> bool" where
  "pageContainer i es =
     (case getElementById i es of None \<Rightarrow> False | Some k \<Rightarrow> hasClass ''page'' (es ! k))"

definition isPageContainer :: "string \<Rightarrow> page \<Rightarrow> bool" where
  "isPageContainer pageName s = pageContainer (pageName @ ''-page'') (document s)"

text \<open>The page a request ends at, by the guard of \<open>updateNavigation\<close>.\<close>

definition effectivePage :: "page \<Rightarrow> string \<Rightarrow> string" where
  "effectivePage s pageName =
     (if isLogged s \<and> (pageName = ''signin'' \<or> pageName = ''signup'') then ''dashboard''
      else if \<not> isLogged s \<and>
              pageName \<in> set [''dashboard'', ''challenges'', ''rewards'', ''profile'']
      then ''signin''
      else pageName)"

text \<open>A sequence of \<open>showPage\<close> calls, the head of the list first.\<close>

definition requestPages :: "string list \<Rightarrow> page \<Rightarrow> page" where
  "requestPages names s = fold showPage names s"

text \<open>
  The document steps of \<open>showPage\<close> and of \<open>updateNavigation\<close>, on the element list.
\<close>

definition switchTo :: "string \<Rightarrow> element list \<Rightarrow> element list" where
  "switchTo pageName es =
     withElementById (pageName @ ''-page'') (classAdd ''active'') (deactivatePages es)"

definition navLinks :: "bool \<Rightarrow> element list \<Rightarrow> element list" where
  "navLinks logged es =
     (let v = (if logged then ''inline'' else ''none'')
      in withElementById ''signout-link'' (setDisplay v)
           (withElementById ''dashboard-link'' (setDisplay v) es))"

text \<open>Whether \<open>showToast\<close> finds its container.\<close>

definition hasToastContainer :: "page \<Rightarrow> bool" where
  "hasToastContainer s = (getElementById ''toasts'' (document s) \<noteq> None)"

text \<open>
  What the like listener reads and writes: the liked ids; the likes count of the
  first post with a given id, read as \<open>p.likes || 0\<close>; the assignment to
  \<open>p.likes\<close> in its two branches; and two clicks in a row, the second on the
  store the first one left.
\<close>

definition likedIds :: "storage \<Rightarrow> js_error + int list" where
  "likedIds st = JSON_parse (orEmptyArray (likedPosts st))"

definition likesOf :: "int \<Rightarrow> storage \<Rightarrow> int option" where
  "likesOf pid st = map_option likesOr0 (find (\<lambda>p. post_id p = pid) (getPosts st))"

definition toggled :: "bool \<Rightarrow> post \<Rightarrow> post" where
  "toggled isLiked p =
     (if isLiked then p\<lparr>likes := Some (max 0 (numMinus (likesOr0 p) 1))\<rparr>
      else p\<lparr>likes := Some (numPlus (likesOr0 p) 1)\<rparr>)"

definition toggleTwice :: "int \<Rightarrow> storage \<Rightarrow> js_error + storage" where
  "toggleTwice pid st = (case likeClick pid st of Inl e \<Rightarrow> Inl e | Inr st1 \<Rightarrow> likeClick pid st1)"

subsection \<open>Example states\<close>

text \<open>
  A document with the two navigation links, four page containers (the home page
  active) and the toast container; an anonymous and a logged-in page over it; a
  sign-up form; a post form; small post boards.
\<close>

definition elem :: "string \<Rightarrow> string list \<Rightarrow> string option \<Rightarrow> element" where
  "elem i cs v = \<lparr>elem_id = i, classList = cs, style_display = None, input_value = v\<rparr>"

definition emptyStore :: storage where
  "emptyStore = \<lparr>isLoggedIn = None, userName = None, theme = None, siteLang = None,
                  onboardCompleted = None, posts = None, likedPosts = None\<rparr>"

definition demoDocument :: "element list" where
  "demoDocument =
     [elem ''dashboard-link'' [] None, elem ''signout-link'' [] None,
      elem ''home-page'' [''page'', ''active''] None,
      elem ''signin-page'' [''page''] None,
      elem ''signup-page'' [''page''] None,
      elem ''dashboard-page'' [''page''] None,
      elem ''toasts'' [] None]"

definition anonymousPage :: page where
  "anonymousPage =
     \<lparr>localStorage = emptyStore, document = demoDocument, toasts = [], posts_grid = []\<rparr>"

definition memberPage :: page where
  "memberPage =
     \<lparr>localStorage = emptyStore\<lparr>isLoggedIn := Some ''true'', userName := Some ''Asha''\<rparr>,
      document = demoDocument, toasts = [], posts_grid = []\<rparr>"

definition signupPage :: "string \<Rightarrow> string \<Rightarrow> string \<Rightarrow> page" where
  "signupPage name pwd confirm =
     \<lparr>localStorage = emptyStore,
      document = demoDocument @
        [elem ''signup-name'' [] (Some name), elem ''signup-password'' [] (Some pwd),
         elem ''signup-confirm-password'' [] (Some confirm)],
      toasts = [], posts_grid = []\<rparr>"

definition postFormPage :: "string \<Rightarrow> page" where
  "postFormPage ttl =
     \<lparr>localStorage = emptyStore\<lparr>userName := Some ''Asha''\<rparr>,
      document = demoDocument @
        [elem ''post-title'' [] (Some ttl), elem ''post-desc'' [] (Some ''In the park ''),
         elem ''post-image'' [] (Some []), elem ''posts-grid'' [] None],
      toasts = [], posts_grid = []\<rparr>"

definition demoPost :: "int \<Rightarrow> int option \<Rightarrow> post" where
  "demoPost i n = \<lparr>post_id = i, title = ''Planted a tree'', description = ''In the park'',
                   image_url = None, likes = n, createdAt = i, author = ''Asha''\<rparr>"

definition boardStore :: "post list json_text option \<Rightarrow> int list json_text option \<Rightarrow> storage" where
  "boardStore ps ls = emptyStore\<lparr>posts := ps, likedPosts := ls\<rparr>"

definition zeroLikedStore :: storage where
  "zeroLikedStore = boardStore (Some (Json [demoPost 1 (Some 0)])) (Some (Json [1]))"

definition hugeLikesStore :: storage where
  "hugeLikesStore =
     boardStore (Some (Json [demoPost 1 (Some 9007199254740992)])) (Some (Json []))"

section \<open>Navigation\<close>

subsection \<open>The document steps\<close>

declare showPage.simps [simp del] updateNavigation.simps [simp del]

lemma withElementById_Nil [simp]: "withElementById i f [] = []"
  by (simp add: withElementById_def getElementById_def)

lemma withElementById_Cons [simp]:
  "withElementById i f (e # es) =
     (if elem_id e = i then f e # es else e # withElementById i f es)"
  by (simp add: withElementById_def getElementById_def split: option.splits)

lemma getElementById_with:
  "(\<And>e. elem_id (f e) = elem_id e) \<Longrightarrow>
   getElementById i (withElementById j f es) = getElementById i es"
  by (induction es) (simp_all add: getElementById_def)

lemma getElementById_deactivate [simp]:
  "getElementById i (deactivatePages es) = getElementById i es"
  by (induction es) (simp_all add: getElementById_def deactivatePages_def classRemove_def)

lemma pageContainer_Nil [simp]: "pageContainer i [] = False"
  by (simp add: pageContainer_def getElementById_def)

lemma pageContainer_Cons [simp]:
  "pageContainer i (e # es) = (if elem_id e = i then hasClass ''page'' e else pageContainer i es)"
  by (simp add: pageContainer_def getElementById_def split: option.splits)

lemma pageContainer_with:
  assumes "\<And>e. elem_id (f e) = elem_id e" "\<And>e. hasClass ''page'' (f e) = hasClass ''page'' e"
  shows "pageContainer i (withElementById j f es) = pageContainer i es"
  by (induction es) (simp_all add: assms)

lemma pageContainer_deactivate [simp]:
  "pageContainer i (deactivatePages es) = pageContainer i es"
  by (induction es) (simp_all add: deactivatePages_def hasClass_def classRemove_def)

lemma elem_id_classAdd [simp]: "elem_id (classAdd c e) = elem_id e"
  by (simp add: classAdd_def)

lemma elem_id_setDisplay [simp]: "elem_id (setDisplay v e) = elem_id e"
  by (simp add: setDisplay_def)

lemma hasClass_setDisplay [simp]: "hasClass c (setDisplay v e) = hasClass c e"
  by (simp add: setDisplay_def hasClass_def)

lemma hasClass_classAdd [simp]: "hasClass c (classAdd d e) = (c = d \<or> hasClass c e)"
  by (auto simp: classAdd_def hasClass_def)

lemma pageContainer_switchTo [simp]: "pageContainer i (switchTo n es) = pageContainer i es"
  by (simp add: switchTo_def pageContainer_with)

lemma activeOf_Nil [simp]: "activeOf [] = []"
  by (simp add: activeOf_def)

lemma activeOf_Cons [simp]:
  "activeOf (e # es) =
     (if hasClass ''page'' e \<and> hasClass ''active'' e then elem_id e # activeOf es else activeOf es)"
  by (simp add: activeOf_def)

text \<open>After the first line of \<open>showPage\<close> no page container is active.\<close>

lemma activeOf_deactivate [simp]: "activeOf (deactivatePages es) = []"
  by (induction es) (simp_all add: deactivatePages_def hasClass_def classRemove_def)

text \<open>The second and third line activate at most the element that was looked up.\<close>

lemma activeOf_activate:
  "activeOf es = [] \<Longrightarrow>
   activeOf (withElementById i (classAdd ''active'') es) = (if pageContainer i es then [i] else [])"
  by (induction es) (auto split: if_splits)

lemma activeOf_switchTo:
  "activeOf (switchTo n es) = (if pageContainer (n @ ''-page'') es then [n @ ''-page''] else [])"
  by (simp add: switchTo_def activeOf_activate)

lemma activeOf_with:
  assumes "\<And>e. elem_id (f e) = elem_id e" "\<And>c e. hasClass c (f e) = hasClass c e"
  shows "activeOf (withElementById j f es) = activeOf es"
  by (induction es) (simp_all add: assms)

lemma activeOf_navLinks [simp]: "activeOf (navLinks b es) = activeOf es"
  by (simp add: navLinks_def Let_def activeOf_with)

lemma pageContainer_navLinks [simp]: "pageContainer i (navLinks b es) = pageContainer i es"
  by (simp add: navLinks_def Let_def pageContainer_with)

lemma setNavLinks_eq: "setNavLinks s = s\<lparr>document := navLinks (isLogged s) (document s)\<rparr>"
  by (simp add: setNavLinks_def navLinks_def Let_def)

subsection \<open>What \<open>showPage\<close> computes\<close>

text \<open>
  \<open>showPage\<close> changes the document only: one switch and one setting of the links,
  and both once more for the page the guard sends the request on to.
\<close>

lemma showPage_eq:
  "showPage n s =
     s\<lparr>document :=
         (if guarded (isLogged s) n
          then navLinks (isLogged s) (switchTo (effectivePage s n)
                 (navLinks (isLogged s) (switchTo n (document s))))
          else navLinks (isLogged s) (switchTo n (document s)))\<rparr>"
  by (auto simp: showPage.simps updateNavigation.simps setNavLinks_eq isLogged_def
        guarded_def effectivePage_def switchTo_def)

lemma activePages_showPage:
  "activePages (showPage n s) =
     (if isPageContainer (effectivePage s n) s then [effectivePage s n @ ''-page''] else [])"
  apply (simp add: showPage_eq activePages_def isPageContainer_def activeOf_switchTo)
  apply (auto simp: guarded_def effectivePage_def)
  done

lemma localStorage_showPage [simp]: "localStorage (showPage n s) = localStorage s"
  by (simp add: showPage_eq)

lemma toasts_showPage [simp]: "toasts (showPage n s) = toasts s"
  by (simp add: showPage_eq)

lemma isLogged_showPage [simp]: "isLogged (showPage n s) = isLogged s"
  by (simp add: isLogged_def)

lemma isPageContainer_showPage [simp]: "isPageContainer m (showPage n s) = isPageContainer m s"
  by (simp add: showPage_eq isPageContainer_def)

lemma effectivePage_showPage [simp]: "effectivePage (showPage n s) = effectivePage s"
  by (auto simp: effectivePage_def fun_eq_iff)

lemma requestPages_invariants:
  "isLogged (requestPages names s) = isLogged s \<and>
   effectivePage (requestPages names s) = effectivePage s \<and>
   (\<forall>m. isPageContainer m (requestPages names s) = isPageContainer m s)"
  by (induction names arbitrary: s) (simp_all add: requestPages_def)

lemma activePages_requestPages:
  assumes "names \<noteq> []"
  shows "activePages (requestPages names s) =
     (if isPageContainer (effectivePage s (last names)) s
      then [effectivePage s (last names) @ ''-page''] else [])"
proof -
  from assms obtain ns n where names: "names = ns @ [n]"
    by (metis append_butlast_last_id)
  have "requestPages names s = showPage n (requestPages ns s)"
    by (simp add: names requestPages_def)
  then show ?thesis
    using requestPages_invariants [of ns s] by (simp add: activePages_showPage names)
qed

lemma demo_containers [simp]:
  "isPageContainer ''dashboard'' anonymousPage" "isPageContainer ''signin'' anonymousPage"
  "isPageContainer ''dashboard'' memberPage" "isPageContainer ''signin'' memberPage"
  "isPageContainer ''home'' anonymousPage"
  by (simp_all add: isPageContainer_def anonymousPage_def memberPage_def demoDocument_def elem_def
        hasClass_def)

lemma demo_nocontainer [simp]: "\<not> isPageContainer ''leaderboard'' anonymousPage"
  apply (simp only: isPageContainer_def)
  apply (simp add: anonymousPage_def demoDocument_def elem_def)
  done

lemma demo_logged [simp]: "isLogged memberPage" "\<not> isLogged anonymousPage"
  by (simp_all add: isLogged_def memberPage_def anonymousPage_def emptyStore_def)

subsection \<open>Claims on navigation\<close>

text \<open>
  Claim C1. When the store says the user is logged in and the requested page is
  \<open>signin\<close> or \<open>signup\<close>, \<open>showPage\<close> displays what a request for \<open>dashboard\<close>
  displays, and the one active page container is \<open>dashboard-page\<close>; when the user
  is not logged in and the requested page is one of \<open>dashboard\<close>, \<open>challenges\<close>,
  \<open>rewards\<close>, \<open>profile\<close>, it displays what a request for \<open>signin\<close> displays, and
  the one active page container is \<open>signin-page\<close>. The document is a parameter;
  that a page becomes active needs its container in the document.
\<close>

theorem guard_forces_page:
  "(isLogged s \<and> pageName \<in> {''signin'', ''signup''} \<longrightarrow>
      activePages (showPage pageName s) = activePages (showPage ''dashboard'' s) \<and>
      (isPageContainer ''dashboard'' s \<longrightarrow>
         activePages (showPage pageName s) = [''dashboard-page''])) \<and>
   (\<not> isLogged s \<and> pageName \<in> {''dashboard'', ''challenges'', ''rewards'', ''profile''} \<longrightarrow>
      activePages (showPage pageName s) = activePages (showPage ''signin'' s) \<and>
      (isPageContainer ''signin'' s \<longrightarrow>
         activePages (showPage pageName s) = [''signin-page'']))"
  by (auto simp: activePages_showPage effectivePage_def)

theorem guard_forces_page_witness:
  "isLogged memberPage \<and> isPageContainer ''dashboard'' memberPage \<and>
   activePages (showPage ''signup'' memberPage) = [''dashboard-page''] \<and>
   \<not> isLogged anonymousPage \<and> isPageContainer ''signin'' anonymousPage \<and>
   activePages (showPage ''rewards'' anonymousPage) = [''signin-page'']"
  using guard_forces_page
          [of memberPage "''signup''", THEN conjunct1, rule_format, THEN conjunct2, rule_format]
        guard_forces_page
          [of anonymousPage "''rewards''", THEN conjunct2, rule_format, THEN conjunct2, rule_format]
  by simp

text \<open>
  Claim C2, as stated, fails: a request for a name with no page container leaves
  no page active, although one page was active before.
\<close>

theorem one_active_page_counterexample:
  "activePages anonymousPage = [''home-page''] \<and>
   activePages (requestPages [''leaderboard''] anonymousPage) = []"
proof -
  have "activePages anonymousPage = [''home-page'']"
    by (simp add: activePages_def anonymousPage_def demoDocument_def elem_def hasClass_def)
  moreover have "activePages (requestPages [''leaderboard''] anonymousPage) = []"
    by (simp add: activePages_requestPages effectivePage_def)
  ultimately show ?thesis by simp
qed

text \<open>
  Claim C2, amended. After each call of a sequence of \<open>showPage\<close> calls, from any
  state and with any names, at most one page container is active; exactly one
  is active precisely when the page the guard settles on for that call (the
  requested page, or the page the guard sends it on to) has a page container.
\<close>

theorem at_most_one_active_page:
  "0 < k \<and> k \<le> length names \<longrightarrow>
     length (activePages (requestPages (take k names) s)) \<le> 1 \<and>
     (length (activePages (requestPages (take k names) s)) = 1) =
        isPageContainer (effectivePage s (names ! (k - 1))) s"
proof
  assume k: "0 < k \<and> k \<le> length names"
  then have ne: "take k names \<noteq> []" by auto
  from k have "length (take k names) = k" by simp
  with k have "last (take k names) = names ! (k - 1)"
    using last_conv_nth [OF ne] by simp
  then show "length (activePages (requestPages (take k names) s)) \<le> 1 \<and>
     (length (activePages (requestPages (take k names) s)) = 1) =
        isPageContainer (effectivePage s (names ! (k - 1))) s"
    using activePages_requestPages [OF ne, of s] by simp
qed

theorem at_most_one_active_page_witness:
  "(0::nat) < 2 \<and> 2 \<le> length [''leaderboard'', ''dashboard'', ''home''] \<and>
   length (activePages
     (requestPages (take 2 [''leaderboard'', ''dashboard'', ''home'']) anonymousPage)) = 1"
  using at_most_one_active_page [of 2 "[''leaderboard'', ''dashboard'', ''home'']" anonymousPage]
  by (simp add: effectivePage_def)

text \<open>
  Claim C3, as stated, fails: \<open>showPage\<close> removes \<open>active\<close> from every page
  container before it looks the requested one up, so a name without an element
  changes the set of active pages.
\<close>

theorem unknown_page_counterexample:
  "getElementById (''settings'' @ ''-page'') (document memberPage) = None \<and>
   activePages memberPage = [''home-page''] \<and>
   activePages (showPage ''settings'' memberPage) = []"
  apply (simp add: activePages_showPage)
  apply (simp add: activePages_def memberPage_def demoDocument_def elem_def hasClass_def
      effectivePage_def getElementById_def isPageContainer_def isLogged_def emptyStore_def)
  done

text \<open>
  Claim C3, amended. For a page name that has no element in the document and
  that the guard does not send on, \<open>showPage\<close> removes \<open>active\<close> from every page
  container and sets the visibility of the two navigation links; nothing else
  changes, and no page container is active afterwards.
\<close>

theorem unknown_page_deactivates:
  assumes "getElementById (pageName @ ''-page'') (document s) = None"
      and "\<not> guarded (isLogged s) pageName"
  shows "showPage pageName s = setNavLinks (s\<lparr>document := deactivatePages (document s)\<rparr>) \<and>
         activePages (showPage pageName s) = []"
proof -
  have "\<not> isPageContainer pageName s"
    using assms(1) by (simp add: isPageContainer_def pageContainer_def)
  moreover have "effectivePage s pageName = pageName"
    using assms(2) by (auto simp: guarded_def effectivePage_def)
  moreover have "switchTo pageName (document s) = deactivatePages (document s)"
    using assms(1) by (simp add: switchTo_def withElementById_def)
  ultimately show ?thesis
    using assms(2)
    by (simp add: activePages_showPage showPage_eq setNavLinks_eq isLogged_def activePages_def)
qed

theorem unknown_page_deactivates_witness:
  "getElementById (''leaderboard'' @ ''-page'') (document anonymousPage) = None \<and>
   \<not> guarded (isLogged anonymousPage) ''leaderboard'' \<and>
   activePages (showPage ''leaderboard'' anonymousPage) = []"
proof -
  have a: "getElementById (''leaderboard'' @ ''-page'') (document anonymousPage) = None"
    by (simp add: anonymousPage_def demoDocument_def elem_def getElementById_def)
  have b: "\<not> guarded (isLogged anonymousPage) ''leaderboard''"
    by (simp add: guarded_def)
  show ?thesis using a b unknown_page_deactivates [OF a b, THEN conjunct2] by simp
qed

section \<open>Session transitions\<close>

lemma showToast_fields [simp]:
  "localStorage (showToast m t s) = localStorage s"
  "document (showToast m t s) = document s"
  "posts_grid (showToast m t s) = posts_grid s"
  by (simp_all add: showToast_def split: option.splits)

lemma toasts_showToast:
  "toasts (showToast m t s) = (if hasToastContainer s then toasts s @ [(m, t)] else toasts s)"
  by (simp add: showToast_def hasToastContainer_def split: option.splits)

text \<open>
  Claim C4. A sign-up whose password differs from its confirmation changes
  neither the store nor the document (no session, the login state as before) and
  shows the warning toast; the toast needs the toast container. A sign-up whose
  two values agree sets \<open>isLoggedIn\<close> to \<open>'true'\<close>, stores the user name (the
  name field, or \<open>EcoWarrior\<close> when it is missing or empty) and makes
  \<open>dashboard-page\<close> the active page; that needs the container in the document.
\<close>

theorem handleSignUp_transition:
  "(optValue ''signup-password'' (document s) \<noteq> optValue ''signup-confirm-password'' (document s)
      \<longrightarrow> localStorage (handleSignUp s) = localStorage s \<and>
          document (handleSignUp s) = document s \<and>
          (hasToastContainer s
             \<longrightarrow> toasts (handleSignUp s) = toasts s @ [(''Passwords do not match!'', ''warn'')])) \<and>
   (optValue ''signup-password'' (document s) = optValue ''signup-confirm-password'' (document s)
      \<longrightarrow> isLoggedIn (localStorage (handleSignUp s)) = Some ''true'' \<and>
          isLogged (handleSignUp s) \<and>
          userName (localStorage (handleSignUp s)) =
            Some (orElse (optValue ''signup-name'' (document s)) ''EcoWarrior'') \<and>
          (isPageContainer ''dashboard'' s
             \<longrightarrow> activePages (handleSignUp s) = [''dashboard-page'']))"
proof (intro conjI impI)
  assume ne: "optValue ''signup-password'' (document s) \<noteq>
              optValue ''signup-confirm-password'' (document s)"
  then have eq: "handleSignUp s = showToast ''Passwords do not match!'' ''warn'' s"
    by (simp add: handleSignUp_def Let_def)
  show "localStorage (handleSignUp s) = localStorage s" by (simp add: eq)
  show "document (handleSignUp s) = document s" by (simp add: eq)
  assume "hasToastContainer s"
  then show "toasts (handleSignUp s) = toasts s @ [(''Passwords do not match!'', ''warn'')]"
    by (simp add: eq toasts_showToast)
next
  assume same: "optValue ''signup-password'' (document s) =
                optValue ''signup-confirm-password'' (document s)"
  define s1 where "s1 = showToast ''Account created successfully! Redirecting to dashboard...''
      ''success''
      (s\<lparr>localStorage := (localStorage s)
           \<lparr>isLoggedIn := Some ''true'',
            userName := Some (orElse (optValue ''signup-name'' (document s)) ''EcoWarrior'')\<rparr>\<rparr>)"
  have eq: "handleSignUp s = showPage ''dashboard'' s1"
    using same by (simp add: handleSignUp_def Let_def s1_def)
  have logged: "isLogged s1" by (simp add: s1_def isLogged_def)
  show "isLoggedIn (localStorage (handleSignUp s)) = Some ''true''"
    by (simp add: eq s1_def)
  show "isLogged (handleSignUp s)"
    by (simp add: eq logged)
  show "userName (localStorage (handleSignUp s)) =
          Some (orElse (optValue ''signup-name'' (document s)) ''EcoWarrior'')"
    by (simp add: eq s1_def)
  assume "isPageContainer ''dashboard'' s"
  then have "isPageContainer ''dashboard'' s1"
    by (simp add: isPageContainer_def s1_def)
  then show "activePages (handleSignUp s) = [''dashboard-page'']"
    using logged by (simp add: eq activePages_showPage effectivePage_def)
qed

lemma signupPage_values [simp]:
  "optValue ''signup-password'' (document (signupPage n p c)) = Some p"
  "optValue ''signup-confirm-password'' (document (signupPage n p c)) = Some c"
  "optValue ''signup-name'' (document (signupPage n p c)) = Some n"
  by (simp_all add: signupPage_def demoDocument_def elem_def optValue_def getElementById_def)

lemma signupPage_containers [simp]:
  "hasToastContainer (signupPage n p c)" "isPageContainer ''dashboard'' (signupPage n p c)"
  by (simp_all add: signupPage_def demoDocument_def elem_def hasToastContainer_def
        getElementById_def isPageContainer_def hasClass_def)

theorem handleSignUp_transition_witness:
  "optValue ''signup-password'' (document (signupPage ''Asha'' ''abc'' ''xyz'')) \<noteq>
     optValue ''signup-confirm-password'' (document (signupPage ''Asha'' ''abc'' ''xyz'')) \<and>
   hasToastContainer (signupPage ''Asha'' ''abc'' ''xyz'') \<and>
   localStorage (handleSignUp (signupPage ''Asha'' ''abc'' ''xyz'')) = emptyStore \<and>
   toasts (handleSignUp (signupPage ''Asha'' ''abc'' ''xyz'')) =
     [(''Passwords do not match!'', ''warn'')] \<and>
   optValue ''signup-password'' (document (signupPage ''Asha'' ''abc'' ''abc'')) =
     optValue ''signup-confirm-password'' (document (signupPage ''Asha'' ''abc'' ''abc'')) \<and>
   isPageContainer ''dashboard'' (signupPage ''Asha'' ''abc'' ''abc'') \<and>
   isLogged (handleSignUp (signupPage ''Asha'' ''abc'' ''abc'')) \<and>
   userName (localStorage (handleSignUp (signupPage ''Asha'' ''abc'' ''abc''))) = Some ''Asha'' \<and>
   activePages (handleSignUp (signupPage ''Asha'' ''abc'' ''abc'')) = [''dashboard-page'']"
  using handleSignUp_transition [of "signupPage ''Asha'' ''abc'' ''xyz''"]
        handleSignUp_transition [of "signupPage ''Asha'' ''abc'' ''abc''"]
  by (simp add: orElse_def) (simp add: signupPage_def)

text \<open>
  Claim C10. \<open>signOut\<close> removes the keys \<open>isLoggedIn\<close> and \<open>userName\<close> from the
  store and leaves the posts, the liked ids, the theme, the language and the
  onboarding flag as they were.
\<close>

theorem signOut_frame:
  "localStorage (signOut s) = (localStorage s)\<lparr>isLoggedIn := None, userName := None\<rparr> \<and>
   isLoggedIn (localStorage (signOut s)) = None \<and>
   userName (localStorage (signOut s)) = None \<and>
   posts (localStorage (signOut s)) = posts (localStorage s) \<and>
   likedPosts (localStorage (signOut s)) = likedPosts (localStorage s) \<and>
   theme (localStorage (signOut s)) = theme (localStorage s) \<and>
   siteLang (localStorage (signOut s)) = siteLang (localStorage s) \<and>
   onboardCompleted (localStorage (signOut s)) = onboardCompleted (localStorage s)"
  by (simp add: signOut_def)

section \<open>Post board\<close>

subsection \<open>Reading and writing the store\<close>

lemma findIndex_Some:
  "findIndex P xs = Some k \<Longrightarrow> k < length xs \<and> P (xs ! k)"
  by (induction xs arbitrary: k) (auto split: if_splits)

lemma findIndex_update:
  "findIndex P xs = Some k \<Longrightarrow> P y \<Longrightarrow> findIndex P (xs[k := y]) = Some k"
  by (induction xs arbitrary: k) (auto split: if_splits)

lemma find_findIndex: "find P xs = map_option (\<lambda>k. xs ! k) (findIndex P xs)"
  by (induction xs) (simp_all add: option.map_comp comp_def)

lemma getPosts_savePosts [simp]: "getPosts (savePosts ps st) = ps"
  by (simp add: getPosts_def savePosts_def orEmptyArray_def JSON_stringify_def)

lemma getPosts_likedPosts_update [simp]: "getPosts (st\<lparr>likedPosts := l\<rparr>) = getPosts st"
  by (simp add: getPosts_def)

lemma likedIds_update [simp]:
  "likedIds (st\<lparr>likedPosts := Some (JSON_stringify l)\<rparr>) = Inr l"
  by (simp add: likedIds_def orEmptyArray_def JSON_stringify_def)

lemma getPosts_malformed: "posts st = Some Malformed \<Longrightarrow> getPosts st = []"
  by (simp add: getPosts_def orEmptyArray_def)

lemma renderPosts_malformed:
  "posts (localStorage s) = Some Malformed \<Longrightarrow>
   getElementById ''posts-grid'' (document s) \<noteq> None \<Longrightarrow>
   posts_grid (renderPosts s) = []"
  by (auto simp: renderPosts_def getPosts_malformed)

lemma renderPosts_fields [simp]:
  "localStorage (renderPosts s) = localStorage s" "toasts (renderPosts s) = toasts s"
  by (simp_all add: renderPosts_def Let_def split: option.splits)

lemma hasToastContainer_renderPosts [simp]:
  "hasToastContainer (renderPosts s) = hasToastContainer s"
  by (simp add: renderPosts_def Let_def hasToastContainer_def getElementById_with
        split: option.splits)

lemma trimmedValue_optValue:
  "optValue i es = Some v \<Longrightarrow> trimmedValue i es = Inr (trim v)"
  by (auto simp: optValue_def trimmedValue_def split: option.splits)

subsection \<open>Numbers\<close>

declare excess.simps [simp del]

lemma excess_small: "a < 2 ^ 53 \<Longrightarrow> excess a = 0"
  by (simp add: excess.simps)

lemma excess_limit: "excess 9007199254740992 = 1"
  by (simp add: excess.simps [of 9007199254740992] excess.simps [of 4503599627370496])

text \<open>Integers of magnitude up to \<open>2 ^ 53\<close> are exact.\<close>

lemma toNumber_exact: "\<bar>x\<bar> \<le> 2 ^ 53 \<Longrightarrow> toNumber x = x"
proof (cases "\<bar>x\<bar> < 2 ^ 53")
  case True
  then have "nat \<bar>x\<bar> < 2 ^ 53"
    by (simp add: nat_less_iff)
  then show ?thesis
    by (simp add: toNumber_def excess_small)
next
  case False
  assume "\<bar>x\<bar> \<le> 2 ^ 53"
  with False have ax: "\<bar>x\<bar> = 2 ^ 53" by simp
  then have a: "nat \<bar>x\<bar> = 2 ^ 53" by simp
  have "sgn x * 2 ^ 53 = x"
    using ax by (cases "0 \<le> x") (simp_all add: sgn_if)
  then show ?thesis
    by (simp add: toNumber_def a excess_limit)
qed

lemma toNumber_nonneg: "0 \<le> x \<Longrightarrow> 0 \<le> toNumber x"
  by (simp add: toNumber_def Let_def sgn_if)

text \<open>The first integer that is not a Number: \<open>2 ^ 53 + 1\<close> rounds to \<open>2 ^ 53\<close>.\<close>

lemma numPlus_limit: "numPlus 9007199254740992 1 = 9007199254740992"
  by (simp add: numPlus_def toNumber_def Let_def excess.simps [of 9007199254740993]
        excess.simps [of 4503599627370496])

lemma numPlus_exact: "\<bar>x + y\<bar> \<le> 2 ^ 53 \<Longrightarrow> numPlus x y = x + y"
  by (simp add: numPlus_def toNumber_exact)

lemma numMinus_exact: "\<bar>x - y\<bar> \<le> 2 ^ 53 \<Longrightarrow> numMinus x y = x - y"
  by (simp add: numMinus_def toNumber_exact)

text \<open>Below \<open>2 ^ 53\<close> a like undoes an unlike and an unlike a like, up to the clamp.\<close>

lemma like_then_unlike:
  assumes "0 \<le> n" and "n < 2 ^ 53"
  shows "max 0 (numMinus (numPlus n 1) 1) = n"
proof -
  have "\<bar>n + 1\<bar> \<le> 2 ^ 53" using assms by (simp add: abs_le_iff)
  then have "numPlus n 1 = n + 1" by (rule numPlus_exact)
  moreover have "\<bar>n + 1 - 1\<bar> \<le> 2 ^ 53" using assms by (simp add: abs_le_iff)
  then have "numMinus (n + 1) 1 = n + 1 - 1" by (rule numMinus_exact)
  ultimately show ?thesis using assms by simp
qed

lemma unlike_then_like:
  assumes "1 \<le> n" and "n < 2 ^ 53"
  shows "numPlus (max 0 (numMinus n 1)) 1 = n"
proof -
  have "\<bar>n - 1\<bar> \<le> 2 ^ 53" using assms by (simp add: abs_le_iff)
  then have "numMinus n 1 = n - 1" by (rule numMinus_exact)
  moreover have "\<bar>n - 1 + 1\<bar> \<le> 2 ^ 53" using assms by (simp add: abs_le_iff)
  then have "numPlus (n - 1) 1 = n - 1 + 1" by (rule numPlus_exact)
  ultimately show ?thesis using assms by (simp add: max_def)
qed

subsection \<open>The like listener on a readable store\<close>

lemma likeClick_malformed:
  "likedPosts st = Some Malformed \<Longrightarrow> likeClick pid st = Inl SyntaxError"
  by (simp add: likeClick_def orEmptyArray_def)

lemma likeClick_missing:
  "likedIds st = Inr liked \<Longrightarrow> findIndex (\<lambda>p. post_id p = pid) (getPosts st) = None \<Longrightarrow>
   likeClick pid st = Inr st"
  by (simp add: likeClick_def likedIds_def)

lemma likeClick_found:
  assumes "likedIds st = Inr liked"
      and "findIndex (\<lambda>p. post_id p = pid) (getPosts st) = Some k"
  shows "likeClick pid st =
     Inr ((savePosts ((getPosts st)[k := toggled (pid \<in> set liked) (getPosts st ! k)]) st)
            \<lparr>likedPosts := Some (JSON_stringify
                (if pid \<in> set liked then remove1 pid liked else liked @ [pid]))\<rparr>)"
proof -
  have "post_id (getPosts st ! k) = pid"
    using findIndex_Some [OF assms(2)] by simp
  then show ?thesis
    using assms by (simp add: likeClick_def likedIds_def Let_def toggled_def)
qed

lemma likesOr0_toggled:
  "likesOr0 (toggled b p) =
     (if b then max 0 (numMinus (likesOr0 p) 1) else numPlus (likesOr0 p) 1)"
  by (simp add: toggled_def likesOr0_def)

lemma toggled_nonneg: "0 \<le> likesOr0 p \<Longrightarrow> 0 \<le> likesOr0 (toggled b p)"
  by (simp add: likesOr0_toggled numPlus_def toNumber_nonneg)

lemma post_id_toggled [simp]: "post_id (toggled b p) = post_id p"
  by (simp add: toggled_def)

lemma likesOf_findIndex:
  "likesOf pid st =
     map_option (\<lambda>k. likesOr0 (getPosts st ! k)) (findIndex (\<lambda>p. post_id p = pid) (getPosts st))"
  by (simp add: likesOf_def find_findIndex option.map_comp comp_def)

lemma likesOf_boardStore [simp]:
  "likesOf i (boardStore (Some (Json [demoPost i n])) l) =
     Some (case n of None \<Rightarrow> 0 | Some m \<Rightarrow> m)"
  by (simp add: likesOf_def boardStore_def getPosts_def orEmptyArray_def demoPost_def likesOr0_def)

lemma likedIds_boardStore [simp]: "likedIds (boardStore ps (Some (Json l))) = Inr l"
  by (simp add: likedIds_def boardStore_def orEmptyArray_def)

subsection \<open>Claims on the post board\<close>

text \<open>
  Claim C5. The submit listener reads the three fields of the form, which the
  document must hold. With a title that is empty after trimming it returns the
  page with the warning toast (shown when the toast container exists) and the
  posts as they were. With any other title it returns a page whose posts are
  the earlier posts followed by one new post, with \<open>likes\<close> 0, with \<open>id\<close> the
  reading of the clock taken for it, and with the author the stored user name
  or \<open>EcoWarrior\<close>.
\<close>

theorem postFormSubmit_creates:
  assumes "optValue ''post-title'' (document s) = Some ttl"
      and "optValue ''post-desc'' (document s) = Some desc"
      and "optValue ''post-image'' (document s) = Some img"
  shows "(trim ttl = [] \<longrightarrow>
            postFormSubmit now1 now2 s = Inr (showToast ''Please enter a post title'' ''warn'' s) \<and>
            localStorage (showToast ''Please enter a post title'' ''warn'' s) = localStorage s \<and>
            getPosts (localStorage (showToast ''Please enter a post title'' ''warn'' s)) =
              getPosts (localStorage s) \<and>
            (hasToastContainer s \<longrightarrow>
               toasts (showToast ''Please enter a post title'' ''warn'' s) =
                 toasts s @ [(''Please enter a post title'', ''warn'')])) \<and>
         (trim ttl \<noteq> [] \<longrightarrow>
            (\<exists>s' p. postFormSubmit now1 now2 s = Inr s' \<and>
               getPosts (localStorage s') = getPosts (localStorage s) @ [p] \<and>
               length (getPosts (localStorage s')) = length (getPosts (localStorage s)) + 1 \<and>
               likes p = Some 0 \<and> post_id p = now1 \<and> createdAt p = now2 \<and>
               author p = orElse (userName (localStorage s)) ''EcoWarrior''))"
proof (intro conjI impI)
  assume empty: "trim ttl = []"
  show "postFormSubmit now1 now2 s = Inr (showToast ''Please enter a post title'' ''warn'' s)"
    using assms empty by (simp add: postFormSubmit_def trimmedValue_optValue)
  show "localStorage (showToast ''Please enter a post title'' ''warn'' s) = localStorage s"
    by simp
  show "getPosts (localStorage (showToast ''Please enter a post title'' ''warn'' s)) =
          getPosts (localStorage s)"
    by simp
  assume "hasToastContainer s"
  then show "toasts (showToast ''Please enter a post title'' ''warn'' s) =
               toasts s @ [(''Please enter a post title'', ''warn'')]"
    by (simp add: toasts_showToast)
next
  assume nonempty: "trim ttl \<noteq> []"
  let ?p = "\<lparr>post_id = now1, title = trim ttl, description = trim desc,
             image_url = (if trim img = [] then None else Some (trim img)),
             likes = Some 0, createdAt = now2,
             author = orElse (userName (localStorage s)) ''EcoWarrior''\<rparr>"
  let ?s1 = "s\<lparr>localStorage := savePosts (getPosts (localStorage s) @ [?p]) (localStorage s)\<rparr>"
  let ?s' = "showToast ''Your post has been shared! Thank you for contributing!'' ''success''
               (renderPosts ?s1)"
  have "postFormSubmit now1 now2 s = Inr ?s'"
    using assms nonempty by (simp add: postFormSubmit_def trimmedValue_optValue Let_def)
  moreover have "getPosts (localStorage ?s') = getPosts (localStorage s) @ [?p]"
    by simp
  ultimately show "\<exists>s' p. postFormSubmit now1 now2 s = Inr s' \<and>
               getPosts (localStorage s') = getPosts (localStorage s) @ [p] \<and>
               length (getPosts (localStorage s')) = length (getPosts (localStorage s)) + 1 \<and>
               likes p = Some 0 \<and> post_id p = now1 \<and> createdAt p = now2 \<and>
               author p = orElse (userName (localStorage s)) ''EcoWarrior''"
    by (intro exI [of _ ?s'] exI [of _ ?p]) simp
qed

lemma postFormPage_values [simp]:
  "optValue ''post-title'' (document (postFormPage t)) = Some t"
  "optValue ''post-desc'' (document (postFormPage t)) = Some ''In the park ''"
  "optValue ''post-image'' (document (postFormPage t)) = Some []"
  "hasToastContainer (postFormPage t)"
  by (simp_all add: postFormPage_def demoDocument_def elem_def optValue_def getElementById_def
        hasToastContainer_def)

lemma trim_examples [simp]: "trim ''  '' = []" "trim '' Planted a tree'' = ''Planted a tree''"
  by (simp_all add: trim_def isWhiteSpace_def)

theorem postFormSubmit_creates_witness:
  "optValue ''post-title'' (document (postFormPage ''  '')) = Some ''  '' \<and>
   trim ''  '' = [] \<and> hasToastContainer (postFormPage ''  '') \<and>
   postFormSubmit 1700 1701 (postFormPage ''  '') =
     Inr (showToast ''Please enter a post title'' ''warn'' (postFormPage ''  '')) \<and>
   toasts (showToast ''Please enter a post title'' ''warn'' (postFormPage ''  '')) =
     [(''Please enter a post title'', ''warn'')] \<and>
   optValue ''post-title'' (document (postFormPage '' Planted a tree'')) =
     Some '' Planted a tree'' \<and>
   trim '' Planted a tree'' \<noteq> [] \<and>
   getPosts (localStorage (postFormPage '' Planted a tree'')) = [] \<and>
   (\<exists>s' p. postFormSubmit 1700 1701 (postFormPage '' Planted a tree'') = Inr s' \<and>
      getPosts (localStorage s') = [p] \<and> likes p = Some 0 \<and> post_id p = 1700 \<and>
      author p = ''Asha'')"
proof -
  have g: "getPosts (localStorage (postFormPage '' Planted a tree'')) = []"
    by (simp add: postFormPage_def emptyStore_def getPosts_def orEmptyArray_def)
  have u: "orElse (userName (localStorage (postFormPage '' Planted a tree''))) ''EcoWarrior'' =
             ''Asha''"
    by (simp add: postFormPage_def emptyStore_def orElse_def)
  have t: "toasts (postFormPage ''  '') = []"
    by (simp add: postFormPage_def)
  show ?thesis
    using postFormSubmit_creates
            [of "postFormPage ''  ''" "''  ''" "''In the park ''" "[]" 1700 1701]
          postFormSubmit_creates
            [of "postFormPage '' Planted a tree''" "'' Planted a tree''"
              "''In the park ''" "[]" 1700 1701]
    by (simp add: g u t) blast
qed

text \<open>
  Claim C6, as stated, fails: on a post with 0 likes that the browser has marked
  as liked, the first click clamps the count at 0 and the second raises it to 1.
\<close>

theorem toggle_twice_counterexample:
  "likesOf 1 zeroLikedStore = Some 0 \<and>
   toggleTwice 1 zeroLikedStore =
     Inr (boardStore (Some (Json [demoPost 1 (Some 1)])) (Some (Json [1]))) \<and>
   likesOf 1 (boardStore (Some (Json [demoPost 1 (Some 1)])) (Some (Json [1]))) = Some 1"
  by (simp add: zeroLikedStore_def)
     (simp add: toggleTwice_def likeClick_def boardStore_def emptyStore_def getPosts_def
        savePosts_def orEmptyArray_def JSON_stringify_def demoPost_def likesOr0_def Let_def
        numPlus_exact numMinus_exact)

text \<open>
  Claim C6, amended. On a store whose liked ids are readable and hold no id
  twice, for a post id in the list whose likes count is not negative and below
  \<open>2 ^ 53\<close> (where the Number arithmetic of the listener is exact), and at
  least 1 when the browser has the post marked as liked, two clicks in a row
  both return, and give the post its likes count back and the liked ids their
  members.
\<close>

theorem toggle_twice_restores_likes:
  assumes liked: "likedIds st = Inr liked" and dist: "distinct liked"
      and present: "likesOf pid st = Some n"
      and nonneg: "0 \<le> n" and bound: "n < 2 ^ 53"
      and pos: "pid \<in> set liked \<longrightarrow> 1 \<le> n"
  shows "\<exists>st2 liked2. toggleTwice pid st = Inr st2 \<and> likesOf pid st2 = Some n \<and>
           likedIds st2 = Inr liked2 \<and> set liked2 = set liked"
proof -
  let ?P = "\<lambda>p. post_id p = pid"
  let ?ps = "getPosts st"
  from present obtain k where k: "findIndex ?P ?ps = Some k" and n: "likesOr0 (?ps ! k) = n"
    by (auto simp: likesOf_findIndex)
  have kP: "k < length ?ps" "post_id (?ps ! k) = pid"
    using findIndex_Some [OF k] by simp_all
  let ?b = "pid \<in> set liked"
  let ?liked1 = "if ?b then remove1 pid liked else liked @ [pid]"
  let ?ps1 = "?ps[k := toggled ?b (?ps ! k)]"
  let ?st1 = "(savePosts ?ps1 st)\<lparr>likedPosts := Some (JSON_stringify ?liked1)\<rparr>"
  have step1: "likeClick pid st = Inr ?st1"
    by (rule likeClick_found [OF liked k])
  have liked1: "likedIds ?st1 = Inr ?liked1" by simp
  have ps1: "getPosts ?st1 = ?ps1" by simp
  have k1': "findIndex ?P ?ps1 = Some k"
    by (rule findIndex_update [OF k]) (simp add: kP)
  have k1: "findIndex ?P (getPosts ?st1) = Some k"
    unfolding ps1 by (rule k1')
  have b1: "(pid \<in> set ?liked1) = (\<not> ?b)"
    using dist by auto
  let ?liked2 = "if \<not> ?b then remove1 pid ?liked1 else ?liked1 @ [pid]"
  let ?ps2 = "?ps1[k := toggled (\<not> ?b) (?ps1 ! k)]"
  let ?st2 = "(savePosts ?ps2 ?st1)\<lparr>likedPosts := Some (JSON_stringify ?liked2)\<rparr>"
  have step2: "likeClick pid ?st1 = Inr ?st2"
    using likeClick_found [OF liked1 k1] unfolding ps1 b1 by simp
  have twice: "toggleTwice pid st = Inr ?st2"
    by (simp add: toggleTwice_def step1 step2)
  have ps2: "getPosts ?st2 = ?ps2" by simp
  have k2': "findIndex ?P ?ps2 = Some k"
    by (rule findIndex_update [OF k1']) (simp add: kP k)
  have k2: "findIndex ?P (getPosts ?st2) = Some k"
    unfolding ps2 by (rule k2')
  have "likesOr0 (toggled (\<not> ?b) (toggled ?b (?ps ! k))) = n"
  proof (cases ?b)
    case True
    with pos have "1 \<le> n" by simp
    then show ?thesis
      using True n bound by (simp add: likesOr0_toggled unlike_then_like)
  next
    case False
    then show ?thesis
      using n nonneg bound by (simp add: likesOr0_toggled like_then_unlike)
  qed
  then have "likesOr0 (getPosts ?st2 ! k) = n"
    using kP by simp
  then have likes2: "likesOf pid ?st2 = Some n"
    using k2 by (simp add: likesOf_findIndex)
  have "set ?liked2 = set liked"
    using dist by auto
  moreover have "likedIds ?st2 = Inr ?liked2" by simp
  ultimately show ?thesis
    using twice likes2 by blast
qed

theorem toggle_twice_restores_likes_witness:
  "likedIds (boardStore (Some (Json [demoPost 1 (Some 2)])) (Some (Json [1]))) = Inr [1] \<and>
   distinct [1::int] \<and> (0::int) \<le> 2 \<and> (2::int) < 2 ^ 53 \<and>
   likesOf 1 (boardStore (Some (Json [demoPost 1 (Some 2)])) (Some (Json [1]))) = Some 2 \<and>
   (\<exists>st2 liked2.
      toggleTwice 1 (boardStore (Some (Json [demoPost 1 (Some 2)])) (Some (Json [1]))) = Inr st2 \<and>
      likesOf 1 st2 = Some 2 \<and> likedIds st2 = Inr liked2 \<and> set liked2 = set [1])"
  using toggle_twice_restores_likes
    [of "boardStore (Some (Json [demoPost 1 (Some 2)])) (Some (Json [1]))" "[1]" 1 2]
  by simp

text \<open>
  The bound is needed: at \<open>2 ^ 53\<close> likes the like rounds back to \<open>2 ^ 53\<close> and
  the unlike then gives \<open>2 ^ 53 - 1\<close>.
\<close>

lemma toggle_twice_at_limit:
  "likesOf 1 hugeLikesStore = Some 9007199254740992 \<and>
   toggleTwice 1 hugeLikesStore =
     Inr (boardStore (Some (Json [demoPost 1 (Some 9007199254740991)])) (Some (Json [])))"
  by (simp add: hugeLikesStore_def)
     (simp add: toggleTwice_def likeClick_def boardStore_def emptyStore_def getPosts_def
        savePosts_def orEmptyArray_def JSON_stringify_def demoPost_def likesOr0_def Let_def
        numPlus_limit numMinus_exact)

text \<open>
  Claim C7. On a store whose liked ids are readable the listener does what the
  claim says: it returns the store as it is when no post has the id
  (\<open>likeClick_missing\<close>); otherwise it flips the membership of the id in the
  liked ids and sets the likes count to one more, or to one less and at least 0
  (\<open>likeClick_found\<close>, \<open>likesOr0_toggled\<close>, \<open>toggled_nonneg\<close>). The claim
  is for every browser state, though, and the listener parses the liked ids
  first and outside any \<open>try\<close>: when that text is not JSON it throws, also for a
  post id that is not in the list, where the claim says it returns silently.
\<close>

theorem likeClick_missing_post_throws:
  "findIndex (\<lambda>p. post_id p = 42) (getPosts (boardStore None (Some Malformed))) = None \<and>
   likeClick 42 (boardStore None (Some Malformed)) = Inl SyntaxError"
  by (simp add: likeClick_def boardStore_def emptyStore_def getPosts_def orEmptyArray_def)

text \<open>
  Claim C8. For the posts key the claim holds: a text that is not JSON reads as
  the empty list (\<open>getPosts_malformed\<close>) and renders as an empty grid
  (\<open>renderPosts_malformed\<close>). For the liked-ids key it does not: where the same
  click on a store with no liked ids likes the post, on a store whose liked-ids
  text is not JSON it throws.
\<close>

theorem malformed_liked_ids_throw:
  "getPosts (boardStore (Some Malformed) None) = [] \<and>
   likeClick 7 (boardStore (Some (Json [demoPost 7 (Some 2)])) (Some (Json []))) =
     Inr (boardStore (Some (Json [demoPost 7 (Some 3)])) (Some (Json [7]))) \<and>
   likeClick 7 (boardStore (Some (Json [demoPost 7 (Some 2)])) (Some Malformed)) = Inl SyntaxError"
  by (simp add: likeClick_def boardStore_def emptyStore_def getPosts_def
        savePosts_def orEmptyArray_def JSON_stringify_def demoPost_def likesOr0_def Let_def
        numPlus_exact)

section \<open>Offline cache worker\<close>

text \<open>All deletions together remove the caches whose names were listed.\<close>

lemma fold_caches_delete:
  "fold caches_delete ks cs = filter (\<lambda>c. fst c \<notin> set ks) cs"
proof (induction ks arbitrary: cs)
  case Nil
  then show ?case by simp
next
  case (Cons k ks)
  have "fold caches_delete (k # ks) cs = fold caches_delete ks (caches_delete k cs)"
    by simp
  also have "\<dots> = filter (\<lambda>c. fst c \<notin> set ks) (filter (\<lambda>c. fst c \<noteq> k) cs)"
    by (simp add: Cons.IH caches_delete_def)
  also have "\<dots> = filter (\<lambda>c. fst c \<notin> set (k # ks)) cs"
    by (simp add: conj_commute)
  finally show ?case .
qed

text \<open>
  Claim C9. For every list of caches, after \<open>activate\<close> the caches that remain are
  those named \<open>CACHE_NAME\<close>, each as it was, and every cache of another name is
  gone: the names that remain are the earlier names that equal \<open>CACHE_NAME\<close>.
\<close>

theorem activate_retains_current:
  "activate cs = filter (\<lambda>c. fst c = CACHE_NAME) cs \<and>
   set (caches_keys (activate cs)) = set (caches_keys cs) \<inter> {CACHE_NAME}"
proof -
  have "activate cs = filter (\<lambda>c. fst c = CACHE_NAME) cs"
    unfolding activate_def fold_caches_delete caches_keys_def
    by (rule filter_cong) auto
  then show ?thesis
    by (force simp: caches_keys_def)
qed

lemma activate_example:
  "activate [(''ecostep-v0'', a), (''ecostep-v1'', b), (''other'', c)] = [(''ecostep-v1'', b)]"
  by (simp add: activate_def caches_keys_def caches_delete_def CACHE_NAME_def)

end
